theory Spec2Isabelle
  imports Complex_Main
begin

section \<open>Python values used by the shift tracker\<close>

text \<open>
  The exceptions that the modelled code can raise. \<open>add_button_action\<close> handles
  \<open>ValueError\<close> and \<open>TypeError\<close>; \<open>delete_selected_entry\<close> handles \<open>IndexError\<close>
  and \<open>KeyError\<close>; everything else leaves the callback as an exception.
\<close>

datatype py_error = ValueError | TypeError | IndexError | OverflowError | KeyError

subsection \<open>\<open>int(text)\<close>\<close>

text \<open>
  A character is a code point below 256. \<open>int\<close> strips white space (the six ASCII
  white-space characters, NEL and the no-break space), reads an optional sign and then
  decimal digits, where single underscores may stand between two digits. The cap that
  recent interpreters put on the number of digits (4300) is not modelled.
\<close>

definition is_digit :: "char \<Rightarrow> bool" where
  "is_digit c = (48 \<le> (of_char c :: nat) \<and> (of_char c :: nat) \<le> 57)"

definition digit_val :: "char \<Rightarrow> nat" where
  "digit_val c = (of_char c :: nat) - 48"

definition int_space :: "char \<Rightarrow> bool" where
  "int_space c = ((of_char c :: nat) \<in> set [9, 10, 11, 12, 13, 32, 133, 160])"

definition strip :: "string \<Rightarrow> string" where
  "strip s = dropWhile int_space (rev (dropWhile int_space (rev s)))"

fun int_digits :: "string \<Rightarrow> nat \<Rightarrow> nat option" where
  "int_digits [] acc = Some acc"
| "int_digits [c] acc = (if is_digit c then Some (acc * 10 + digit_val c) else None)"
| "int_digits (c # d # ds) acc =
     (if c = CHR ''_'' then
        (if is_digit d then int_digits ds (acc * 10 + digit_val d) else None)
      else if is_digit c then int_digits (d # ds) (acc * 10 + digit_val c)
      else None)"

fun int_unsigned :: "string \<Rightarrow> nat option" where
  "int_unsigned [] = None"
| "int_unsigned (c # cs) = (if is_digit c then int_digits cs (digit_val c) else None)"

definition py_int :: "string \<Rightarrow> py_error + int" where
  "py_int s =
     (case strip s of
        [] \<Rightarrow> Inl ValueError
      | c # cs \<Rightarrow>
          (if c = CHR ''-'' then
             (case int_unsigned cs of None \<Rightarrow> Inl ValueError | Some n \<Rightarrow> Inr (- int n))
           else if c = CHR ''+'' then
             (case int_unsigned cs of None \<Rightarrow> Inl ValueError | Some n \<Rightarrow> Inr (int n))
           else
             (case int_unsigned (c # cs) of None \<Rightarrow> Inl ValueError | Some n \<Rightarrow> Inr (int n))))"

subsection \<open>\<open>text.split(":")\<close> and indexing\<close>

fun split_acc :: "char \<Rightarrow> string \<Rightarrow> string \<Rightarrow> string list" where
  "split_acc sep cur [] = [rev cur]"
| "split_acc sep cur (x # xs) =
     (if x = sep then rev cur # split_acc sep [] xs else split_acc sep (x # cur) xs)"

definition split_colon :: "string \<Rightarrow> string list" where
  "split_colon s = split_acc (CHR '':'') [] s"

definition item :: "'a list \<Rightarrow> nat \<Rightarrow> py_error + 'a" where
  "item xs i = (if i < length xs then Inr (xs ! i) else Inl IndexError)"

subsection \<open>\<open>datetime.date\<close>, \<open>datetime.time\<close>, \<open>datetime.timedelta\<close>\<close>

record date =
  year :: int
  month :: int
  day :: int

text \<open>The program builds times from an hour and a minute; seconds and microseconds stay 0.\<close>

record time =
  hour :: int
  minute :: int

record timedelta =
  days :: int
  seconds :: int

definition c_int :: "int \<Rightarrow> bool" where
  "c_int n = (- 2147483648 \<le> n \<and> n \<le> 2147483647)"

definition is_leap :: "int \<Rightarrow> bool" where
  "is_leap y = (y mod 4 = 0 \<and> (y mod 100 \<noteq> 0 \<or> y mod 400 = 0))"

definition days_in_month :: "int \<Rightarrow> int \<Rightarrow> int" where
  "days_in_month y m =
     (if m = 2 then (if is_leap y then 29 else 28)
      else if m = 4 \<or> m = 6 \<or> m = 9 \<or> m = 11 then 30 else 31)"

definition date_new :: "int \<Rightarrow> int \<Rightarrow> int \<Rightarrow> py_error + date" where
  "date_new y m d =
     (if \<not> (c_int y \<and> c_int m \<and> c_int d) then Inl OverflowError
      else if y < 1 \<or> 9999 < y then Inl ValueError
      else if m < 1 \<or> 12 < m then Inl ValueError
      else if d < 1 \<or> days_in_month y m < d then Inl ValueError
      else Inr \<lparr>year = y, month = m, day = d\<rparr>)"

definition time_new :: "int \<Rightarrow> int \<Rightarrow> py_error + time" where
  "time_new h m =
     (if \<not> (c_int h \<and> c_int m) then Inl OverflowError
      else if h < 0 \<or> 23 < h then Inl ValueError
      else if m < 0 \<or> 59 < m then Inl ValueError
      else Inr \<lparr>hour = h, minute = m\<rparr>)"

definition days_before_year :: "int \<Rightarrow> int" where
  "days_before_year y = (y - 1) * 365 + (y - 1) div 4 - (y - 1) div 100 + (y - 1) div 400"

fun days_before_month :: "int \<Rightarrow> nat \<Rightarrow> int" where
  "days_before_month y 0 = 0"
| "days_before_month y (Suc k) = days_before_month y k + days_in_month y (int (Suc k))"

definition toordinal :: "date \<Rightarrow> int" where
  "toordinal d = days_before_year (year d) + days_before_month (year d) (nat (month d - 1)) + day d"

definition timedelta_new :: "int \<Rightarrow> int \<Rightarrow> timedelta" where
  "timedelta_new d s = \<lparr>days = d + s div 86400, seconds = s mod 86400\<rparr>"

definition day_seconds :: "time \<Rightarrow> int" where
  "day_seconds t = hour t * 3600 + minute t * 60"

text \<open>\<open>datetime.combine(d, t)\<close> is the pair \<open>(d, t)\<close>; the difference of two of them:\<close>

definition datetime_sub :: "date \<times> time \<Rightarrow> date \<times> time \<Rightarrow> timedelta" where
  "datetime_sub a b =
     timedelta_new (toordinal (fst a) - toordinal (fst b)) (day_seconds (snd a) - day_seconds (snd b))"

subsection \<open>\<open>round(x, 2)\<close>\<close>

text \<open>
  The number of hours is a float. It is modelled by the exact rational it stands for:
  \<open>round(x, 2)\<close> rounds to the nearest hundredth, a tie going to the even one.
\<close>

definition round_half_even :: "rat \<Rightarrow> int" where
  "round_half_even x =
     (let f = \<lfloor>x\<rfloor>; r = x - of_int f
      in if r < 1 / 2 then f else if 1 / 2 < r then f + 1 else if even f then f else f + 1)"

definition py_round2 :: "rat \<Rightarrow> rat" where
  "py_round2 x = of_int (round_half_even (x * 100)) / 100"

section \<open>The entry form: \<open>AddWindow\<close>\<close>

text \<open>
  The three parsing steps of \<open>add_button_action\<close>. Python evaluates the arguments of a
  call from left to right, so the start time reads its hour first and the end time its
  minute first.
\<close>

definition parse_date :: "string \<Rightarrow> string \<Rightarrow> string \<Rightarrow> py_error + date" where
  "parse_date ys ms ds =
     (case py_int ys of Inl e \<Rightarrow> Inl e | Inr y \<Rightarrow>
       (case py_int ms of Inl e \<Rightarrow> Inl e | Inr m \<Rightarrow>
         (case py_int ds of Inl e \<Rightarrow> Inl e | Inr d \<Rightarrow> date_new y m d)))"

definition parse_start_time :: "string \<Rightarrow> py_error + time" where
  "parse_start_time s =
     (case item (split_colon s) 0 of Inl e \<Rightarrow> Inl e | Inr hs \<Rightarrow>
       (case py_int hs of Inl e \<Rightarrow> Inl e | Inr h \<Rightarrow>
         (case item (split_colon s) 1 of Inl e \<Rightarrow> Inl e | Inr ms \<Rightarrow>
           (case py_int ms of Inl e \<Rightarrow> Inl e | Inr m \<Rightarrow> time_new h m))))"

definition parse_end_time :: "string \<Rightarrow> py_error + time" where
  "parse_end_time s =
     (case item (split_colon s) 1 of Inl e \<Rightarrow> Inl e | Inr ms \<Rightarrow>
       (case py_int ms of Inl e \<Rightarrow> Inl e | Inr m \<Rightarrow>
         (case item (split_colon s) 0 of Inl e \<Rightarrow> Inl e | Inr hs \<Rightarrow>
           (case py_int hs of Inl e \<Rightarrow> Inl e | Inr h \<Rightarrow> time_new h m))))"

definition no_of_hours :: "date \<Rightarrow> time \<Rightarrow> time \<Rightarrow> rat" where
  "no_of_hours d start_t end_t =
     py_round2 (of_int (seconds (datetime_sub (d, end_t) (d, start_t))) / 3600)"

definition time_format_validate :: "string \<Rightarrow> string \<Rightarrow> string \<Rightarrow> py_error + bool" where
  "time_format_validate s action index =
     (if action = ''1'' then
        (if index = ''2'' then
           (case item s 2 of
              Inl e \<Rightarrow> Inl e
            | Inr c \<Rightarrow> if c \<noteq> CHR '':'' then Inr False
                       else if 5 < length s then Inr False else Inr True)
         else if 5 < length s then Inr False else Inr True)
      else Inr True)"

text \<open>The duration in the words of the specification: end minus start, in hours, to two places.\<close>

definition spec_duration :: "time \<Rightarrow> time \<Rightarrow> rat" where
  "spec_duration start_t end_t =
     of_int (round ((of_int (day_seconds end_t - day_seconds start_t) / 3600 :: rat) * 100)) / 100"

text \<open>
  What the program computes when the end time lies before the start time, put in words:
  the time from the start to the end time of the following day, in hours, to two places.
\<close>

definition overnight_duration :: "time \<Rightarrow> time \<Rightarrow> rat" where
  "overnight_duration start_t end_t =
     of_int (round ((of_int (86400 - (day_seconds start_t - day_seconds end_t)) / 3600 :: rat) * 100)) / 100"

section \<open>The record store: \<open>FileManager\<close>\<close>

subsection \<open>Tables, \<open>pandas.read_csv\<close> and \<open>DataFrame.to_csv\<close>\<close>

text \<open>
  A CSV file is the list of its data rows under the fixed header; a field of a row is its
  text. \<open>read_csv\<close> does not return the text of a column as it stands: a column whose
  every field is an integer literal is loaded as integers, and only otherwise as text.
  \<open>to_csv\<close> writes an integer in its shortest decimal form and text as it is.

  Scope of the model. pandas also turns columns of decimal fractions, of \<open>True\<close>/\<open>False\<close>
  and the markers of missing values (the empty field, \<open>NA\<close>, \<open>NaN\<close>, \<open>null\<close>, ...) into
  values that are not text, and reads integers padded with blanks or outside the signed
  64-bit range in ways of its own; such fields are kept as text here. Quoting of fields
  that hold commas, quotes or line breaks is not modelled either: a field is taken to be
  read back as it was written, which a field with a line break in it need not be.
\<close>

datatype cell = PyStr string | PyInt int

definition int_literal :: "string \<Rightarrow> bool" where
  "int_literal s =
     (case s of
        [] \<Rightarrow> False
      | c # cs \<Rightarrow> if c = CHR ''-'' \<or> c = CHR ''+'' then cs \<noteq> [] \<and> list_all is_digit cs
                 else list_all is_digit s)"

definition digits_value :: "string \<Rightarrow> nat" where
  "digits_value s = foldl (\<lambda>acc c. acc * 10 + digit_val c) 0 s"

definition literal_value :: "string \<Rightarrow> int" where
  "literal_value s =
     (case s of
        [] \<Rightarrow> 0
      | c # cs \<Rightarrow> if c = CHR ''-'' then - int (digits_value cs)
                 else if c = CHR ''+'' then int (digits_value cs)
                 else int (digits_value s))"

definition int64 :: "int \<Rightarrow> bool" where
  "int64 n = (- 9223372036854775808 \<le> n \<and> n \<le> 9223372036854775807)"

definition integer_field :: "string \<Rightarrow> bool" where
  "integer_field s = (int_literal s \<and> int64 (literal_value s))"

definition infer_column :: "string list \<Rightarrow> cell list" where
  "infer_column fs =
     (if list_all integer_field fs then map (\<lambda>s. PyInt (literal_value s)) fs else map PyStr fs)"

definition digit_char :: "nat \<Rightarrow> char" where
  "digit_char k = char_of (48 + k)"

fun show_nat :: "nat \<Rightarrow> string" where
  "show_nat n = (if n < 10 then [digit_char n] else show_nat (n div 10) @ [digit_char (n mod 10)])"

definition show_int :: "int \<Rightarrow> string" where
  "show_int i = (if i < 0 then CHR ''-'' # show_nat (nat (- i)) else show_nat (nat i))"

fun render_cell :: "cell \<Rightarrow> string" where
  "render_cell (PyStr s) = s"
| "render_cell (PyInt n) = show_int n"

subsection \<open>The Users table\<close>

record 'a user_row =
  name :: 'a
  surname :: 'a
  userid :: 'a

type_synonym users_file = "string user_row list"
type_synonym users_df = "cell user_row list"

definition read_csv_users :: "users_file \<Rightarrow> users_df" where
  "read_csv_users f =
     map (\<lambda>(n, s, u). \<lparr>name = n, surname = s, userid = u\<rparr>)
       (zip (infer_column (map name f))
         (zip (infer_column (map surname f)) (infer_column (map userid f))))"

definition to_csv_users :: "users_df \<Rightarrow> users_file" where
  "to_csv_users df =
     map (\<lambda>r. \<lparr>name = render_cell (name r), surname = render_cell (surname r),
               userid = render_cell (userid r)\<rparr>) df"

text \<open>\<open>userid\<close> is a Python string; it equals a cell only if the cell is that text.\<close>

definition check_if_userid_exists :: "users_file \<Rightarrow> string \<Rightarrow> bool" where
  "check_if_userid_exists f uid =
     (let user_id_list = map userid (read_csv_users f)
      in if PyStr uid \<notin> set user_id_list then False else True)"

definition save_to_userList :: "users_file \<Rightarrow> string \<Rightarrow> string \<Rightarrow> string \<Rightarrow> users_file" where
  "save_to_userList f n s uid =
     to_csv_users (read_csv_users f @ [\<lparr>name = PyStr n, surname = PyStr s, userid = PyStr uid\<rparr>])"

subsection \<open>The Shifts table\<close>

text \<open>
  Of a shift row only the \<open>User id\<close> column takes part in what the program computes; the
  other four fields are represented by the date, the times and the number of hours that
  their text denotes, which writing and reading carry over unchanged.
\<close>

record 'a shift_row =
  user_id :: 'a
  shift_date :: date
  start_time :: time
  end_time :: time
  hours :: rat

type_synonym shift_file = "string shift_row list"

text \<open>A loaded table pairs every row with its index label.\<close>

type_synonym shift_df = "(nat \<times> cell shift_row) list"

definition with_key :: "'b \<Rightarrow> 'a shift_row \<Rightarrow> 'b shift_row" where
  "with_key k r =
     \<lparr>user_id = k, shift_date = shift_date r, start_time = start_time r,
      end_time = end_time r, hours = hours r\<rparr>"

definition read_csv_shifts :: "shift_file \<Rightarrow> shift_df" where
  "read_csv_shifts f =
     zip [0..<length f] (map (\<lambda>(k, r). with_key k r) (zip (infer_column (map user_id f)) f))"

definition to_csv_shifts :: "shift_df \<Rightarrow> shift_file" where
  "to_csv_shifts df = map (\<lambda>(i, r). with_key (render_cell (user_id r)) r) df"

definition append_row :: "shift_df \<Rightarrow> cell shift_row \<Rightarrow> shift_df" where
  "append_row df r = zip [0..<Suc (length df)] (map snd df @ [r])"

definition drop_label :: "shift_df \<Rightarrow> nat \<Rightarrow> py_error + shift_df" where
  "drop_label df l =
     (if l \<in> set (map fst df) then Inr (filter (\<lambda>(i, r). i \<noteq> l) df) else Inl KeyError)"

definition updated_shift_db :: "shift_df \<Rightarrow> shift_file" where
  "updated_shift_db df = to_csv_shifts df"

definition add_entry_to_shift_db ::
  "shift_file \<Rightarrow> string \<Rightarrow> date \<Rightarrow> time \<Rightarrow> time \<Rightarrow> rat \<Rightarrow> shift_file" where
  "add_entry_to_shift_db f uid d st et h =
     updated_shift_db (append_row (read_csv_shifts f)
        \<lparr>user_id = PyStr uid, shift_date = d, start_time = st, end_time = et, hours = h\<rparr>)"

definition get_user_specific_entry :: "shift_file \<Rightarrow> string \<Rightarrow> (nat \<times> cell shift_row) list" where
  "get_user_specific_entry f uid = filter (\<lambda>(i, r). PyStr uid = user_id r) (read_csv_shifts f)"

section \<open>The callbacks of the views\<close>

datatype message = FillAllBoxes | IdExists | AccountCreated

definition create_user :: "users_file \<Rightarrow> string \<Rightarrow> string \<Rightarrow> string \<Rightarrow> message \<times> users_file" where
  "create_user f n s uid =
     (if n = [] \<or> s = [] \<or> uid = [] then (FillAllBoxes, f)
      else if check_if_userid_exists f uid then (IdExists, f)
      else (AccountCreated, save_to_userList f n s uid))"

text \<open>
  \<open>add_button_action\<close> returns the exception of the step that failed, or the values it
  stored, and the Shifts file as the call leaves it.
\<close>

definition add_button_action ::
  "shift_file \<Rightarrow> string \<Rightarrow> string \<Rightarrow> string \<Rightarrow> string \<Rightarrow> string \<Rightarrow> string
     \<Rightarrow> (py_error + string shift_row) \<times> shift_file" where
  "add_button_action f username ys ms ds from_s to_s =
     (case parse_date ys ms ds of Inl e \<Rightarrow> (Inl e, f) | Inr d \<Rightarrow>
       (case parse_start_time from_s of Inl e \<Rightarrow> (Inl e, f) | Inr st \<Rightarrow>
         (case parse_end_time to_s of Inl e \<Rightarrow> (Inl e, f) | Inr et \<Rightarrow>
            (Inr \<lparr>user_id = username, shift_date = d, start_time = st, end_time = et,
                  hours = no_of_hours d st et\<rparr>,
             add_entry_to_shift_db f username d st et (no_of_hours d st et)))))"

text \<open>
  \<open>HomeView\<close> keeps the table that its \<open>FileManager\<close> loaded when the view was built.
  \<open>selection\<close> is what the tree reports as selected: the item ids, which are numbers.
\<close>

record home_view =
  shift_db :: shift_df

definition HomeView_init :: "shift_file \<Rightarrow> home_view" where
  "HomeView_init f = \<lparr>shift_db = read_csv_shifts f\<rparr>"

definition delete_selected_entry :: "home_view \<Rightarrow> nat list \<Rightarrow> shift_file \<Rightarrow> home_view \<times> shift_file" where
  "delete_selected_entry hv selection f =
     (let hv' =
        (case item selection 0 of
           Inl e \<Rightarrow> hv
         | Inr selected_entry \<Rightarrow>
             (case drop_label (shift_db hv) selected_entry of
                Inl e \<Rightarrow> hv
              | Inr df \<Rightarrow> hv\<lparr>shift_db := df\<rparr>))
      in (hv', updated_shift_db (shift_db hv')))"

text \<open>
  \<open>populate_tree\<close> fills the tree with the shifts of one user: the item with id \<open>i\<close>
  shows the \<open>i\<close>-th record of the listing of that user.
\<close>

definition populate_tree :: "shift_file \<Rightarrow> string \<Rightarrow> (nat \<times> date \<times> time \<times> time \<times> rat) list" where
  "populate_tree f uid =
     (let tbl_values = get_user_specific_entry f uid
      in map (\<lambda>i. (i, shift_date (snd (tbl_values ! i)), start_time (snd (tbl_values ! i)),
                    end_time (snd (tbl_values ! i)), hours (snd (tbl_values ! i))))
           [0..<length tbl_values])"

text \<open>
  The ids that certainly stay text when a table is loaded: they begin with a letter, hold
  no line break and are none of the words that stand for a missing value, a truth value
  or infinity.
\<close>

definition is_letter :: "char \<Rightarrow> bool" where
  "is_letter c =
     ((65 \<le> (of_char c :: nat) \<and> (of_char c :: nat) \<le> 90) \<or>
      (97 \<le> (of_char c :: nat) \<and> (of_char c :: nat) \<le> 122))"

definition to_lower :: "char \<Rightarrow> char" where
  "to_lower c =
     (if 65 \<le> (of_char c :: nat) \<and> (of_char c :: nat) \<le> 90 then char_of ((of_char c :: nat) + 32) else c)"

definition reserved_words :: "string list" where
  "reserved_words =
     [''na'', ''n/a'', ''nan'', ''null'', ''none'', ''true'', ''false'', ''inf'', ''infinity'']"

definition text_id :: "string \<Rightarrow> bool" where
  "text_id u =
     (case u of
        [] \<Rightarrow> False
      | c # cs \<Rightarrow> is_letter c \<and> list_all (\<lambda>x. x \<noteq> CHR 0x0A \<and> x \<noteq> CHR 0x0D) u \<and>
                 map to_lower u \<notin> set reserved_words)"

text \<open>\<open>delete_at i xs\<close> is \<open>xs\<close> without its element at position \<open>i\<close>.\<close>

definition delete_at :: "nat \<Rightarrow> 'a list \<Rightarrow> 'a list" where
  "delete_at i xs = take i xs @ drop (Suc i) xs"

text \<open>How \<open>read_csv\<close> loads the \<open>User id\<close> column of a given Shifts file.\<close>

definition load_key :: "shift_file \<Rightarrow> string \<Rightarrow> cell" where
  "load_key f = (if list_all integer_field (map user_id f) then (\<lambda>s. PyInt (literal_value s)) else PyStr)"

text \<open>Two shifts used in the examples below.\<close>

definition example_shift :: "string shift_row" where
  "example_shift =
     \<lparr>user_id = ''bob'', shift_date = \<lparr>year = 2024, month = 3, day = 1\<rparr>,
      start_time = \<lparr>hour = 9, minute = 0\<rparr>, end_time = \<lparr>hour = 17, minute = 30\<rparr>, hours = 17 / 2\<rparr>"

definition example_shift_amy :: "string shift_row" where
  "example_shift_amy =
     \<lparr>user_id = ''amy'', shift_date = \<lparr>year = 2024, month = 3, day = 2\<rparr>,
      start_time = \<lparr>hour = 8, minute = 0\<rparr>, end_time = \<lparr>hour = 12, minute = 0\<rparr>, hours = 4\<rparr>"

section \<open>Duration of a shift\<close>

lemma round_half_even_no_tie:
  assumes "x - of_int \<lfloor>x\<rfloor> \<noteq> 1 / 2"
  shows "round_half_even x = round x"
proof -
  let ?f = "\<lfloor>x\<rfloor>"
  have lo: "of_int ?f \<le> x" and hi: "x < of_int ?f + 1" by linarith+
  show ?thesis
  proof (cases "x - of_int ?f < 1 / 2")
    case True
    have "of_int ?f \<le> x + 1 / 2" "x + 1 / 2 < of_int ?f + 1"
      using True lo by linarith+
    then have "\<lfloor>x + 1 / 2\<rfloor> = ?f"
      by (rule floor_unique)
    with True show ?thesis by (simp add: round_half_even_def round_def Let_def)
  next
    case False
    with assms have gt: "1 / 2 < x - of_int ?f" by simp
    have "of_int (?f + 1) \<le> x + 1 / 2" "x + 1 / 2 < of_int (?f + 1) + 1"
      using gt hi by auto
    then have "\<lfloor>x + 1 / 2\<rfloor> = ?f + 1"
      by (rule floor_unique)
    with False gt show ?thesis by (simp add: round_half_even_def round_def Let_def)
  qed
qed

lemma minutes_no_tie:
  fixes k :: int
  shows "(of_int (60 * k) / 3600 * 100 :: rat) - of_int \<lfloor>(of_int (60 * k) / 3600 * 100 :: rat)\<rfloor> \<noteq> 1 / 2"
proof
  let ?x = "of_int (60 * k) / 3600 * 100 :: rat"
  assume "?x - of_int \<lfloor>?x\<rfloor> = 1 / 2"
  then have "of_int (10 * k) = (of_int (6 * \<lfloor>?x\<rfloor> + 3) :: rat)"
    by (simp add: field_simps)
  then have "10 * k = 6 * \<lfloor>?x\<rfloor> + 3"
    by (simp only: of_int_eq_iff)
  then show False by presburger
qed

lemma time_new_bounds:
  assumes "time_new h m = Inr t"
  shows "hour t = h \<and> minute t = m \<and> 0 \<le> h \<and> h \<le> 23 \<and> 0 \<le> m \<and> m \<le> 59"
  using assms by (auto simp: time_new_def split: if_splits)

lemma seconds_same_date:
  "seconds (datetime_sub (d, a) (d, b)) = (day_seconds a - day_seconds b) mod 86400"
  by (simp add: datetime_sub_def timedelta_new_def)

text \<open>
  Claim C1. For a valid date and two valid times with the end after the start, the number
  of hours that \<open>add_button_action\<close> computes is the time from start to end in hours,
  rounded to two places. For 2024-03-01, 09:00 and 17:30 it is 8.5.
\<close>

theorem duration_same_day:
  assumes "date_new y m d = Inr dt"
    and "time_new h1 m1 = Inr st" and "time_new h2 m2 = Inr et"
    and "day_seconds st < day_seconds et"
  shows "no_of_hours dt st et = spec_duration st et"
proof -
  let ?k = "hour et * 60 + minute et - (hour st * 60 + minute st)"
  have b1: "0 \<le> day_seconds st" "day_seconds et < 86400"
    using time_new_bounds[OF assms(2)] time_new_bounds[OF assms(3)]
    by (auto simp: day_seconds_def)
  have diff: "day_seconds et - day_seconds st = 60 * ?k"
    by (simp add: day_seconds_def algebra_simps)
  have "(day_seconds et - day_seconds st) mod 86400 = day_seconds et - day_seconds st"
    using b1 assms(4) by simp
  then have sec: "seconds (datetime_sub (dt, et) (dt, st)) = 60 * ?k"
    using diff by (simp add: seconds_same_date)
  have "round_half_even (of_int (60 * ?k) / 3600 * 100) = round (of_int (60 * ?k) / 3600 * 100 :: rat)"
    by (rule round_half_even_no_tie) (rule minutes_no_tie)
  then show ?thesis
    unfolding no_of_hours_def spec_duration_def py_round2_def sec diff by simp
qed

theorem duration_same_day_witness:
  "date_new 2024 3 1 = Inr \<lparr>year = 2024, month = 3, day = 1\<rparr> \<and>
   time_new 9 0 = Inr \<lparr>hour = 9, minute = 0\<rparr> \<and>
   time_new 17 30 = Inr \<lparr>hour = 17, minute = 30\<rparr> \<and>
   day_seconds \<lparr>hour = 9, minute = 0\<rparr> < day_seconds \<lparr>hour = 17, minute = 30\<rparr> \<and>
   no_of_hours \<lparr>year = 2024, month = 3, day = 1\<rparr> \<lparr>hour = 9, minute = 0\<rparr> \<lparr>hour = 17, minute = 30\<rparr> = 17 / 2"
proof -
  have a: "date_new 2024 3 1 = Inr \<lparr>year = 2024, month = 3, day = 1\<rparr>" by code_simp
  have b: "time_new 9 0 = Inr \<lparr>hour = 9, minute = 0\<rparr>" by code_simp
  have c: "time_new 17 30 = Inr \<lparr>hour = 17, minute = 30\<rparr>" by code_simp
  have d: "day_seconds \<lparr>hour = 9, minute = 0\<rparr> < day_seconds \<lparr>hour = 17, minute = 30\<rparr>" by code_simp
  have e: "spec_duration \<lparr>hour = 9, minute = 0\<rparr> \<lparr>hour = 17, minute = 30\<rparr> = 17 / 2" by code_simp
  show ?thesis using a b c d e duration_same_day[OF a b c d] by simp
qed

text \<open>
  Claim C2 says that an end time before the start time gives a negative number of hours.
  The program reads the \<open>seconds\<close> field of the difference, which Python keeps between
  0 and 86399 (the sign goes to the \<open>days\<close> field): from 17:30 back to 09:00 it
  computes 15.5, not a negative number.
\<close>

theorem end_before_start_counterexample:
  "no_of_hours \<lparr>year = 2024, month = 3, day = 1\<rparr> \<lparr>hour = 17, minute = 30\<rparr> \<lparr>hour = 9, minute = 0\<rparr> = 31 / 2 \<and>
   \<not> no_of_hours \<lparr>year = 2024, month = 3, day = 1\<rparr> \<lparr>hour = 17, minute = 30\<rparr> \<lparr>hour = 9, minute = 0\<rparr> < 0"
proof -
  have "no_of_hours \<lparr>year = 2024, month = 3, day = 1\<rparr> \<lparr>hour = 17, minute = 30\<rparr> \<lparr>hour = 9, minute = 0\<rparr> = 31 / 2"
    by code_simp
  then show ?thesis by simp
qed

text \<open>
  Claim C2, amended. For a valid date and two valid times with the end before the start,
  the computed number of hours is not negative: it is the time from the start to the end
  time of the following day (24 hours less the gap), in hours rounded to two places, and
  so greater than 0.
\<close>

theorem end_before_start_wraps:
  assumes "date_new y m d = Inr dt"
    and "time_new h1 m1 = Inr st" and "time_new h2 m2 = Inr et"
    and "day_seconds et < day_seconds st"
  shows "no_of_hours dt st et = overnight_duration st et \<and> 0 < no_of_hours dt st et"
proof -
  let ?k = "1440 + (hour et * 60 + minute et) - (hour st * 60 + minute st)"
  have b1: "0 \<le> day_seconds et" "day_seconds st < 86400"
    using time_new_bounds[OF assms(2)] time_new_bounds[OF assms(3)]
    by (auto simp: day_seconds_def)
  have diff: "86400 - (day_seconds st - day_seconds et) = 60 * ?k"
    by (simp add: day_seconds_def algebra_simps)
  have kpos: "1 \<le> ?k"
    using b1 assms(4) by (simp add: day_seconds_def)
  have "(day_seconds et - day_seconds st) mod 86400 = (day_seconds et - day_seconds st + 86400) mod 86400"
    by simp
  also have "\<dots> = day_seconds et - day_seconds st + 86400"
    using b1 assms(4) by (intro mod_pos_pos_trivial) auto
  finally have sec: "seconds (datetime_sub (dt, et) (dt, st)) = 60 * ?k"
    using diff by (simp add: seconds_same_date)
  have rnd: "round_half_even (of_int (60 * ?k) / 3600 * 100) = round (of_int (60 * ?k) / 3600 * 100 :: rat)"
    by (rule round_half_even_no_tie) (rule minutes_no_tie)
  have eq: "no_of_hours dt st et = overnight_duration st et"
    unfolding no_of_hours_def overnight_duration_def py_round2_def sec diff using rnd by simp
  have "(1::rat) \<le> of_int (60 * ?k) / 3600 * 100 + 1 / 2"
    using kpos by (simp add: field_simps)
  then have "1 \<le> round (of_int (60 * ?k) / 3600 * 100 :: rat)"
    unfolding round_def by (simp only: le_floor_iff of_int_1)
  then have "0 < overnight_duration st et"
    unfolding overnight_duration_def diff by simp
  with eq show ?thesis by simp
qed

theorem end_before_start_wraps_witness:
  "date_new 2024 3 1 = Inr \<lparr>year = 2024, month = 3, day = 1\<rparr> \<and>
   time_new 17 30 = Inr \<lparr>hour = 17, minute = 30\<rparr> \<and>
   time_new 9 0 = Inr \<lparr>hour = 9, minute = 0\<rparr> \<and>
   day_seconds \<lparr>hour = 9, minute = 0\<rparr> < day_seconds \<lparr>hour = 17, minute = 30\<rparr> \<and>
   no_of_hours \<lparr>year = 2024, month = 3, day = 1\<rparr> \<lparr>hour = 17, minute = 30\<rparr> \<lparr>hour = 9, minute = 0\<rparr>
     = overnight_duration \<lparr>hour = 17, minute = 30\<rparr> \<lparr>hour = 9, minute = 0\<rparr> \<and>
   overnight_duration \<lparr>hour = 17, minute = 30\<rparr> \<lparr>hour = 9, minute = 0\<rparr> = 31 / 2"
proof -
  have a: "date_new 2024 3 1 = Inr \<lparr>year = 2024, month = 3, day = 1\<rparr>" by code_simp
  have b: "time_new 17 30 = Inr \<lparr>hour = 17, minute = 30\<rparr>" by code_simp
  have c: "time_new 9 0 = Inr \<lparr>hour = 9, minute = 0\<rparr>" by code_simp
  have d: "day_seconds \<lparr>hour = 9, minute = 0\<rparr> < day_seconds \<lparr>hour = 17, minute = 30\<rparr>" by code_simp
  have e: "overnight_duration \<lparr>hour = 17, minute = 30\<rparr> \<lparr>hour = 9, minute = 0\<rparr> = 31 / 2" by code_simp
  show ?thesis using a b c d e end_before_start_wraps[OF a b c d] by simp
qed

section \<open>Reading the entry form\<close>

lemma split_acc_no_sep: "sep \<notin> set xs \<Longrightarrow> split_acc sep cur xs = [rev cur @ xs]"
  by (induction xs arbitrary: cur) auto

lemma split_acc_first:
  "sep \<notin> set xs \<Longrightarrow> split_acc sep cur (xs @ sep # ys) = (rev cur @ xs) # split_acc sep [] ys"
  by (induction xs arbitrary: cur) auto

lemma split_colon_two:
  assumes "CHR '':'' \<notin> set hs" and "CHR '':'' \<notin> set ms"
  shows "split_colon (hs @ CHR '':'' # ms) = [hs, ms]"
  using assms by (simp add: split_colon_def split_acc_first split_acc_no_sep)

text \<open>
  Claim C10. The time fields need not have two digits: a text of at most five characters
  of the form \<open>H:M\<close>, whose part before the colon reads as an integer from 0 to 23 and
  whose part after it reads as an integer from 0 to 59, is parsed to that hour and minute,
  as start time and as end time. \<open>9:5\<close> is read as 09:05.
\<close>

theorem parse_time_short_fields:
  assumes "s = hs @ CHR '':'' # ms"
    and "CHR '':'' \<notin> set hs" and "CHR '':'' \<notin> set ms"
    and "length s \<le> 5"
    and "py_int hs = Inr h" and "0 \<le> h" and "h \<le> 23"
    and "py_int ms = Inr m" and "0 \<le> m" and "m \<le> 59"
  shows "parse_start_time s = Inr \<lparr>hour = h, minute = m\<rparr> \<and>
         parse_end_time s = Inr \<lparr>hour = h, minute = m\<rparr>"
proof -
  have sp: "split_colon s = [hs, ms]"
    using assms(1-3) by (simp add: split_colon_two)
  have tn: "time_new h m = Inr \<lparr>hour = h, minute = m\<rparr>"
    using assms(6,7,9,10) by (simp add: time_new_def c_int_def)
  show ?thesis
    by (simp add: parse_start_time_def parse_end_time_def sp item_def assms(5,8) tn)
qed

theorem parse_time_short_fields_witness:
  "''9:5'' = ''9'' @ CHR '':'' # ''5'' \<and> CHR '':'' \<notin> set ''9'' \<and> CHR '':'' \<notin> set ''5'' \<and>
   length ''9:5'' \<le> 5 \<and> py_int ''9'' = Inr 9 \<and> py_int ''5'' = Inr 5 \<and>
   parse_start_time ''9:5'' = Inr \<lparr>hour = 9, minute = 5\<rparr> \<and>
   parse_end_time ''9:5'' = Inr \<lparr>hour = 9, minute = 5\<rparr>"
proof -
  have a: "''9:5'' = ''9'' @ CHR '':'' # ''5''" by simp
  have b: "CHR '':'' \<notin> set ''9''" "CHR '':'' \<notin> set ''5''" by simp_all
  have c: "length ''9:5'' \<le> 5" by simp
  have d: "py_int ''9'' = Inr 9" "py_int ''5'' = Inr 5" by code_simp+
  show ?thesis
    using a b c d parse_time_short_fields[OF a b c d(1) _ _ d(2)] by simp
qed

text \<open>
  Claim C7. If reading the date, the start time or the end time fails, then
  \<open>add_button_action\<close> ends with an exception and the Shifts file is what it was
  before the call: nothing is written before all three have succeeded.
\<close>

theorem validation_failure_no_write:
  assumes "parse_date ys ms ds = Inl e \<or> parse_start_time from_s = Inl e \<or> parse_end_time to_s = Inl e"
  shows "\<exists>e'. add_button_action f username ys ms ds from_s to_s = (Inl e', f)"
  using assms by (auto simp: add_button_action_def split: sum.splits)

theorem validation_failure_no_write_witness:
  "parse_date ''2023'' ''2'' ''29'' = Inl ValueError \<and>
   (\<exists>e'. add_button_action [] ''bob'' ''2023'' ''2'' ''29'' ''09:00'' ''17:30'' = (Inl e', []))"
proof -
  have a: "parse_date ''2023'' ''2'' ''29'' = Inl ValueError" by code_simp
  then have "parse_date ''2023'' ''2'' ''29'' = Inl ValueError \<or> parse_start_time ''09:00'' = Inl ValueError
      \<or> parse_end_time ''17:30'' = Inl ValueError" by simp
  from validation_failure_no_write[OF this, of "[]" "''bob''"] a show ?thesis by simp
qed

text \<open>
  Claim C8. The time \<open>25:00\<close> is rejected with \<open>ValueError\<close>, as start time and as end
  time, and an entry that holds it in either field leaves the Shifts file unchanged.
\<close>

theorem time_25_00_rejected:
  "parse_start_time ''25:00'' = Inl ValueError \<and> parse_end_time ''25:00'' = Inl ValueError \<and>
   (from_s = ''25:00'' \<or> to_s = ''25:00'' \<longrightarrow>
      (\<exists>e. add_button_action f username ys ms ds from_s to_s = (Inl e, f)))"
proof -
  have a: "parse_start_time ''25:00'' = Inl ValueError" by code_simp
  have b: "parse_end_time ''25:00'' = Inl ValueError" by code_simp
  show ?thesis
    using a b by (auto simp: add_button_action_def split: sum.splits)
qed

theorem time_25_00_rejected_witness:
  "(''25:00'' = ''25:00'' \<or> ''17:30'' = ''25:00'') \<and>
   parse_start_time ''25:00'' = Inl ValueError \<and>
   add_button_action [] ''bob'' ''2024'' ''3'' ''1'' ''25:00'' ''17:30'' = (Inl ValueError, [])"
proof -
  have a: "add_button_action [] ''bob'' ''2024'' ''3'' ''1'' ''25:00'' ''17:30'' = (Inl ValueError, [])"
    by code_simp
  show ?thesis
    using a time_25_00_rejected[of "''25:00''" "''17:30''" "[]" "''bob''" "''2024''" "''3''" "''1''"]
    by simp
qed

section \<open>The store and the views\<close>

lemma letter_not_digit: "is_letter c \<Longrightarrow> \<not> is_digit c \<and> c \<noteq> CHR ''-'' \<and> c \<noteq> CHR ''+''"
  by (auto simp: is_letter_def is_digit_def)

lemma text_id_not_integer: "text_id v \<Longrightarrow> \<not> integer_field v"
  by (cases v) (auto simp: text_id_def integer_field_def int_literal_def dest: letter_not_digit)

lemma is_digit_digit_char: "k < 10 \<Longrightarrow> is_digit (digit_char k)"
  by (simp add: is_digit_def digit_char_def)

lemma show_nat_head: "show_nat n \<noteq> [] \<and> is_digit (hd (show_nat n))"
proof (induction n rule: show_nat.induct)
  case (1 n)
  show ?case
  proof (cases "n < 10")
    case True
    then show ?thesis by (simp add: is_digit_digit_char)
  next
    case False
    with 1 have "show_nat (n div 10) \<noteq> []" "is_digit (hd (show_nat (n div 10)))" by simp_all
    moreover have "show_nat n = show_nat (n div 10) @ [digit_char (n mod 10)]"
      using False by (subst show_nat.simps) simp
    ultimately show ?thesis by simp
  qed
qed

lemma text_id_not_shown: "text_id v \<Longrightarrow> show_int n \<noteq> v"
proof
  assume t: "text_id v" and e: "show_int n = v"
  from t obtain c cs where v: "v = c # cs" and l: "is_letter c"
    by (cases v) (auto simp: text_id_def)
  show False
  proof (cases "n < 0")
    case True
    with e v have "c = CHR ''-''" by (simp add: show_int_def)
    with l show False by (auto dest: letter_not_digit)
  next
    case False
    with e v have "show_nat (nat n) = c # cs" by (simp add: show_int_def)
    with show_nat_head[of "nat n"] have "is_digit c" by simp
    with l show False by (auto dest: letter_not_digit)
  qed
qed


lemma zip_infer:
  "map (\<lambda>(k, r). with_key k r) (zip (map h f) f) = map (\<lambda>r. with_key (h r) r) f"
  by (induction f) auto

lemma read_csv_shifts_rows:
  "read_csv_shifts f = zip [0..<length f] (map (\<lambda>r. with_key (load_key f (user_id r)) r) f)"
  by (simp add: read_csv_shifts_def infer_column_def load_key_def zip_infer o_def)

lemma map_snd_filter_zip:
  "length ix = length xs \<Longrightarrow> map snd (filter (\<lambda>(i, r). P r) (zip ix xs)) = filter P xs"
  by (induction ix xs rule: list_induct2) auto

lemma with_key_key: "user_id (with_key k r) = k"
  by (simp add: with_key_def)

lemma with_key_same: "with_key (user_id r) r = (r :: 'a shift_row)"
  by (simp add: with_key_def)

lemma with_key_twice: "with_key k (with_key j r) = with_key k r"
  by (simp add: with_key_def)

lemma listing_text_id:
  assumes "text_id v"
  shows "map snd (get_user_specific_entry f v) = map (with_key (PyStr v)) (filter (\<lambda>r. user_id r = v) f)"
proof (cases "list_all integer_field (map user_id f)")
  case True
  then have "\<forall>r \<in> set f. user_id r \<noteq> v"
    using text_id_not_integer[OF assms] by (auto simp: list_all_iff)
  then have r: "filter (\<lambda>r. user_id r = v) f = []" by simp
  have "filter (\<lambda>r. PyStr v = user_id r) (map (\<lambda>r. with_key (load_key f (user_id r)) r) f) = []"
    using True by (simp add: load_key_def with_key_key filter_empty_conv)
  then show ?thesis
    by (simp add: get_user_specific_entry_def read_csv_shifts_rows map_snd_filter_zip r)
next
  case False
  then have lk: "load_key f = PyStr" by (simp add: load_key_def)
  have "map snd (get_user_specific_entry f v)
        = filter (\<lambda>r. PyStr v = user_id r) (map (\<lambda>r. with_key (PyStr (user_id r)) r) f)"
    by (simp add: get_user_specific_entry_def read_csv_shifts_rows map_snd_filter_zip lk)
  also have "\<dots> = map (\<lambda>r. with_key (PyStr (user_id r)) r) (filter (\<lambda>r. user_id r = v) f)"
    by (simp add: filter_map o_def with_key_key eq_commute)
  also have "\<dots> = map (with_key (PyStr v)) (filter (\<lambda>r. user_id r = v) f)"
    by (rule map_cong) auto
  finally show ?thesis .
qed

lemma filter_label_zip:
  "length ix = length xs \<Longrightarrow> distinct ix \<Longrightarrow> n < length xs \<Longrightarrow>
   map snd (filter (\<lambda>(j, r). j \<noteq> ix ! n) (zip ix xs)) = delete_at n xs"
proof (induction ix xs arbitrary: n rule: list_induct2)
  case Nil
  then show ?case by simp
next
  case (Cons a as x xs)
  show ?case
  proof (cases n)
    case 0
    have "\<forall>p \<in> set (zip as xs). fst p \<noteq> a"
      using Cons.prems(1) by (auto dest: set_zip_leftD)
    then have "filter (\<lambda>(j, r). j \<noteq> a) (zip as xs) = zip as xs"
      by (intro filter_True) auto
    with 0 Cons.hyps show ?thesis by (simp add: delete_at_def)
  next
    case (Suc m)
    with Cons.prems have m: "m < length xs" and d: "distinct as" and ne: "a \<noteq> as ! m"
      using Cons.hyps by auto
    from Cons.IH[OF d m] Suc ne show ?thesis by (simp add: delete_at_def)
  qed
qed

lemma delete_fresh_view:
  assumes "i < length f"
  shows "snd (delete_selected_entry (HomeView_init f) [i] f)
         = map (\<lambda>r. with_key (render_cell (load_key f (user_id r))) r) (delete_at i f)"
proof -
  let ?rows = "map (\<lambda>r. with_key (load_key f (user_id r)) r) f"
  have lab: "i \<in> set (map fst (read_csv_shifts f))"
    using assms by (simp add: read_csv_shifts_rows)
  have "map snd (filter (\<lambda>(j, r). j \<noteq> [0..<length ?rows] ! i) (zip [0..<length ?rows] ?rows))
        = delete_at i ?rows"
    by (rule filter_label_zip) (use assms in simp_all)
  then have ms: "map snd (filter (\<lambda>(j, r). j \<noteq> i) (read_csv_shifts f)) = delete_at i ?rows"
    using assms by (simp add: read_csv_shifts_rows)
  have tc: "to_csv_shifts df = map (\<lambda>r. with_key (render_cell (user_id r)) r) (map snd df)" for df
    by (simp add: to_csv_shifts_def case_prod_unfold)
  have "snd (delete_selected_entry (HomeView_init f) [i] f)
        = to_csv_shifts (filter (\<lambda>(j, r). j \<noteq> i) (read_csv_shifts f))"
    using lab by (simp add: delete_selected_entry_def HomeView_init_def item_def drop_label_def
        updated_shift_db_def Let_def)
  also have "\<dots> = map (\<lambda>r. with_key (render_cell (user_id r)) r) (delete_at i ?rows)"
    by (simp only: tc ms)
  also have "\<dots> = map (\<lambda>r. with_key (render_cell (load_key f (user_id r))) r) (delete_at i f)"
    by (simp add: delete_at_def take_map drop_map o_def with_key_key with_key_twice)
  finally show ?thesis .
qed

lemma filter_rewritten_keys:
  assumes "text_id v"
  shows "filter (\<lambda>r. user_id r = v) (map (\<lambda>r. with_key (render_cell (load_key f (user_id r))) r) g)
         = (if list_all integer_field (map user_id f) then [] else filter (\<lambda>r. user_id r = v) g)"
proof (cases "list_all integer_field (map user_id f)")
  case True
  then show ?thesis
    using text_id_not_shown[OF assms]
    by (simp add: load_key_def filter_empty_conv with_key_key)
next
  case False
  then show ?thesis
    by (simp add: load_key_def with_key_same)
qed

lemma filter_delete_at:
  assumes "i < length xs"
  shows "filter P (delete_at i xs)
         = (if P (xs ! i) then delete_at (length (filter P (take i xs))) (filter P xs) else filter P xs)"
proof -
  have xs: "xs = take i xs @ xs ! i # drop (Suc i) xs"
    using assms by (rule id_take_nth_drop)
  have fx: "filter P xs = filter P (take i xs) @ filter P [xs ! i] @ filter P (drop (Suc i) xs)"
    by (subst xs) simp
  show ?thesis
    by (simp add: fx) (simp add: delete_at_def)
qed

text \<open>
  Claim C6 at a table of two users. The Shifts table holds a shift of amy and then a shift
  of bob. For bob the tree shows one item, with id 0: his shift. He selects it and
  deletes. \<open>delete_selected_entry\<close> drops the row of the table whose label is the item
  id, and that is the row of amy: the file is left with the shift of bob alone. The
  listing for bob still holds the record he removed, and the listing for amy, which held
  one record, is empty.
\<close>

theorem delete_selected_entry_drops_other_row:
  "populate_tree [example_shift_amy, example_shift] ''bob''
     = [(0, \<lparr>year = 2024, month = 3, day = 1\<rparr>, \<lparr>hour = 9, minute = 0\<rparr>,
            \<lparr>hour = 17, minute = 30\<rparr>, 17 / 2)] \<and>
   snd (delete_selected_entry (HomeView_init [example_shift_amy, example_shift]) [0]
          [example_shift_amy, example_shift]) = [example_shift] \<and>
   get_user_specific_entry [example_shift_amy, example_shift] ''bob''
     = [(1, with_key (PyStr ''bob'') example_shift)] \<and>
   get_user_specific_entry [example_shift] ''bob'' = [(0, with_key (PyStr ''bob'') example_shift)] \<and>
   get_user_specific_entry [example_shift_amy, example_shift] ''amy''
     = [(0, with_key (PyStr ''amy'') example_shift_amy)] \<and>
   get_user_specific_entry [example_shift] ''amy'' = []"
  by code_simp

text \<open>
  What the delete operation does achieve. When the table of the view is the file as it
  stands and the selected id is the label of a row, that row is removed: for a user id
  \<open>v\<close> that is read back as text, the records listed for \<open>v\<close> afterwards are the
  records listed before without that one occurrence if the row belongs to \<open>v\<close>, and
  the same as before if it belongs to another user.
\<close>

lemma delete_by_label_fresh_view:
  assumes "i < length f" and "text_id v"
  shows "(user_id (f ! i) = v \<longrightarrow>
           map snd (get_user_specific_entry (snd (delete_selected_entry (HomeView_init f) [i] f)) v)
           = delete_at (length (filter (\<lambda>r. user_id r = v) (take i f)))
               (map snd (get_user_specific_entry f v))) \<and>
         (user_id (f ! i) \<noteq> v \<longrightarrow>
           map snd (get_user_specific_entry (snd (delete_selected_entry (HomeView_init f) [i] f)) v)
           = map snd (get_user_specific_entry f v))"
proof -
  let ?P = "\<lambda>r. user_id r = v"
  let ?f' = "snd (delete_selected_entry (HomeView_init f) [i] f)"
  have none: "filter ?P g = []" if "list_all integer_field (map user_id f)" "set g \<subseteq> set f" for g
    using that text_id_not_integer[OF assms(2)] by (auto simp: list_all_iff filter_empty_conv)
  have sub: "set (delete_at i f) \<subseteq> set f"
    by (auto simp: delete_at_def dest: in_set_takeD in_set_dropD)
  have "filter ?P ?f' = filter ?P (delete_at i f)"
    unfolding delete_fresh_view[OF assms(1)] filter_rewritten_keys[OF assms(2)]
    using none[OF _ sub] by simp
  then have after: "map snd (get_user_specific_entry ?f' v) = map (with_key (PyStr v)) (filter ?P (delete_at i f))"
    by (simp add: listing_text_id[OF assms(2)])
  have before: "map snd (get_user_specific_entry f v) = map (with_key (PyStr v)) (filter ?P f)"
    by (rule listing_text_id[OF assms(2)])
  show ?thesis
    unfolding after before filter_delete_at[OF assms(1)]
    by (simp add: delete_at_def take_map drop_map)
qed

lemma length_infer_column: "length (infer_column fs) = length fs"
  by (simp add: infer_column_def)

lemma length_read_csv_shifts: "length (read_csv_shifts f) = length f"
  by (simp add: read_csv_shifts_def length_infer_column)

lemma length_to_csv_shifts: "length (to_csv_shifts df) = length df"
  by (simp add: to_csv_shifts_def)

lemma drop_missing_label:
  "l \<notin> set (map fst df) \<Longrightarrow> filter (\<lambda>(i, r). i \<noteq> l) df = df"
  by (intro filter_True) force

text \<open>
  Claim C9. Every call of \<open>delete_selected_entry\<close> writes the table of the view to the
  Shifts file, whatever the file holds at that moment. The table of the view is the one it
  held before, without the row of the first selected item; with nothing selected it is
  unchanged and written all the same. So when the view was built from a file and a row is
  appended to the file afterwards, a delete with nothing selected writes back the table
  loaded at the start: the file is one row shorter again, and the appended row is lost.
\<close>

theorem delete_rewrites_view_table:
  "snd (delete_selected_entry hv sel f)
     = updated_shift_db (shift_db (fst (delete_selected_entry hv sel f))) \<and>
   shift_db (fst (delete_selected_entry hv sel f))
     = filter (\<lambda>(i, r). i \<notin> set (take 1 sel)) (shift_db hv) \<and>
   snd (delete_selected_entry hv [] f) = updated_shift_db (shift_db hv) \<and>
   snd (delete_selected_entry (HomeView_init f0) [] (add_entry_to_shift_db f0 uid d st et h))
     = updated_shift_db (read_csv_shifts f0) \<and>
   length (updated_shift_db (read_csv_shifts f0)) = length f0 \<and>
   length (add_entry_to_shift_db f0 uid d st et h) = Suc (length f0)"
proof -
  have a: "snd (delete_selected_entry hv sel f)
     = updated_shift_db (shift_db (fst (delete_selected_entry hv sel f)))"
    by (simp add: delete_selected_entry_def Let_def)
  have b: "shift_db (fst (delete_selected_entry hv sel f))
     = filter (\<lambda>(i, r). i \<notin> set (take 1 sel)) (shift_db hv)"
  proof (cases sel)
    case Nil
    then show ?thesis by (simp add: delete_selected_entry_def item_def)
  next
    case (Cons l ls)
    show ?thesis
    proof (cases "l \<in> set (map fst (shift_db hv))")
      case True
      with Cons show ?thesis
        by (simp add: delete_selected_entry_def item_def drop_label_def)
    next
      case False
      from drop_missing_label[OF False] False Cons show ?thesis
        by (simp add: delete_selected_entry_def item_def drop_label_def)
    qed
  qed
  have c: "snd (delete_selected_entry hv' [] f') = updated_shift_db (shift_db hv')" for hv' f'
    by (simp add: delete_selected_entry_def item_def)
  have d: "length (updated_shift_db (read_csv_shifts f0)) = length f0"
    by (simp add: updated_shift_db_def length_to_csv_shifts length_read_csv_shifts)
  have e: "length (add_entry_to_shift_db f0 uid d st et h) = Suc (length f0)"
    by (simp add: add_entry_to_shift_db_def updated_shift_db_def length_to_csv_shifts
        append_row_def length_read_csv_shifts)
  show ?thesis
    using a b c[of hv f] c[of "HomeView_init f0"] d e by (simp add: HomeView_init_def)
qed

text \<open>
  Claim C3 at the id \<open>123\<close>: the Users table is empty, so the id is unused; after
  \<open>save_to_userList\<close> the file holds the row, but \<open>check_if_userid_exists\<close> answers
  \<open>False\<close>, because the column is loaded as the integer 123 and the text \<open>123\<close> is
  not equal to it.
\<close>

theorem numeric_id_not_found:
  "\<not> check_if_userid_exists [] ''123'' \<and>
   save_to_userList [] ''Ann'' ''Lee'' ''123'' = [\<lparr>name = ''Ann'', surname = ''Lee'', userid = ''123''\<rparr>] \<and>
   \<not> check_if_userid_exists (save_to_userList [] ''Ann'' ''Lee'' ''123'') ''123''"
  by code_simp

text \<open>
  Claim C4 at the id \<open>123\<close>: \<open>create_user\<close> registers the id in the empty table, and a
  second \<open>create_user\<close> with the same id is accepted as well: the table then has two
  rows with that id.
\<close>

theorem numeric_id_registered_twice:
  "create_user [] ''Ann'' ''Lee'' ''123''
     = (AccountCreated, [\<lparr>name = ''Ann'', surname = ''Lee'', userid = ''123''\<rparr>]) \<and>
   create_user [\<lparr>name = ''Ann'', surname = ''Lee'', userid = ''123''\<rparr>] ''Ann'' ''Lee'' ''123''
     = (AccountCreated, [\<lparr>name = ''Ann'', surname = ''Lee'', userid = ''123''\<rparr>,
                         \<lparr>name = ''Ann'', surname = ''Lee'', userid = ''123''\<rparr>])"
  by code_simp

text \<open>
  Claim C5 at the user id \<open>123\<close>: the shift is written to the empty Shifts table, and
  \<open>get_user_specific_entry\<close> for the same id returns no record.
\<close>

theorem numeric_id_shift_not_listed:
  "add_entry_to_shift_db [] ''123'' \<lparr>year = 2024, month = 3, day = 1\<rparr>
      \<lparr>hour = 9, minute = 0\<rparr> \<lparr>hour = 17, minute = 30\<rparr> (17 / 2)
     = [\<lparr>user_id = ''123'', shift_date = \<lparr>year = 2024, month = 3, day = 1\<rparr>,
         start_time = \<lparr>hour = 9, minute = 0\<rparr>, end_time = \<lparr>hour = 17, minute = 30\<rparr>,
         hours = 17 / 2\<rparr>] \<and>
   get_user_specific_entry
     (add_entry_to_shift_db [] ''123'' \<lparr>year = 2024, month = 3, day = 1\<rparr>
        \<lparr>hour = 9, minute = 0\<rparr> \<lparr>hour = 17, minute = 30\<rparr> (17 / 2)) ''123'' = []"
  by code_simp

text \<open>
  For ids that are read back as text the store does what its documentation says: a saved
  id is found, a found id is not registered again, and an added shift is the last record
  listed for its user.
\<close>

lemma userid_read_csv_users: "map userid (read_csv_users g) = infer_column (map userid g)"
proof -
  have "map userid (map (\<lambda>(n, s, u). \<lparr>name = n, surname = s, userid = u\<rparr>) (zip xs (zip ys zs))) = zs"
    if "length xs = length ys" "length ys = length zs" for xs ys zs :: "cell list"
    using that by (induction xs ys zs rule: list_induct3) auto
  then show ?thesis
    by (simp add: read_csv_users_def length_infer_column)
qed

lemma register_then_exists_text_id:
  assumes "text_id uid"
  shows "check_if_userid_exists (save_to_userList f n s uid) uid"
proof -
  let ?g = "save_to_userList f n s uid"
  have "\<exists>ks. map userid ?g = ks @ [uid]"
    by (simp add: save_to_userList_def to_csv_users_def)
  then obtain ks where ks: "map userid ?g = ks @ [uid]" ..
  have "\<not> integer_field uid"
    by (rule text_id_not_integer[OF assms])
  then have "PyStr uid \<in> set (infer_column (map userid ?g))"
    by (simp add: infer_column_def ks)
  then show ?thesis
    by (simp add: check_if_userid_exists_def userid_read_csv_users)
qed

lemma add_then_list_text_id:
  assumes "text_id uid"
  shows "map snd (get_user_specific_entry (add_entry_to_shift_db f uid d st et h) uid)
         = map snd (get_user_specific_entry f uid)
           @ [\<lparr>user_id = PyStr uid, shift_date = d, start_time = st, end_time = et, hours = h\<rparr>]"
proof -
  let ?P = "\<lambda>r. user_id r = uid"
  let ?row = "\<lparr>user_id = uid, shift_date = d, start_time = st, end_time = et, hours = h\<rparr>"
  have tc: "to_csv_shifts df = map (\<lambda>r. with_key (render_cell (user_id r)) r) (map snd df)" for df
    by (simp add: to_csv_shifts_def case_prod_unfold)
  have f': "add_entry_to_shift_db f uid d st et h
            = map (\<lambda>r. with_key (render_cell (load_key f (user_id r))) r) f @ [?row]"
    by (simp add: add_entry_to_shift_db_def updated_shift_db_def tc append_row_def
        read_csv_shifts_rows o_def with_key_key with_key_twice)
      (simp add: with_key_def)
  have "filter ?P f = []" if "list_all integer_field (map user_id f)"
    using that text_id_not_integer[OF assms] by (auto simp: list_all_iff filter_empty_conv)
  then have "filter ?P (add_entry_to_shift_db f uid d st et h) = filter ?P f @ [?row]"
    unfolding f' by (simp add: filter_rewritten_keys[OF assms])
  then show ?thesis
    by (simp add: listing_text_id[OF assms]) (simp add: with_key_def)
qed

lemma found_id_rejected:
  assumes "n \<noteq> []" and "s \<noteq> []" and "uid \<noteq> []" and "check_if_userid_exists f uid"
  shows "create_user f n s uid = (IdExists, f)"
  using assms by (simp add: create_user_def)

lemma time_format_validate_examples:
  "time_format_validate ''9:5'' ''1'' ''1'' = Inr True"
  "time_format_validate ''9:5'' ''1'' ''2'' = Inr False"
  "time_format_validate ''09:05'' ''1'' ''4'' = Inr True"
  "time_format_validate ''09:050'' ''1'' ''5'' = Inr False"
  by code_simp+

end
